theory Spec2Isabelle
  imports Main
begin

section \<open>JavaScript values, exceptions and effects\<close>

text \<open>
  The class \<open>SpeechToText\<close> of \<^verbatim>\<open>lib/classes/SpeechToText.class.js\<close> is a chainable
  wrapper around the host's \<open>SpeechRecognition\<close> object. Its methods mutate that object
  and return \<open>this\<close>, so the model keeps an explicit store of objects addressed by
  references. A JavaScript computation either returns a value or throws, and the store
  survives a throw: a computation over a state \<open>'s\<close> is a function from the state to a
  completion (\<open>Inl\<close> the thrown error, \<open>Inr\<close> the returned value) and the state
  afterwards.
\<close>

datatype js_error = Error string | TypeError | ReferenceError

type_synonym ('a, 's) js = "'s \<Rightarrow> (js_error + 'a) \<times> 's"

type_synonym ref = nat

text \<open>Method chaining \<^verbatim>\<open>x.m(...)\<close>: the method runs on the returned value unless \<open>x\<close> threw.\<close>

definition chain :: "(js_error + 'a) \<times> 's \<Rightarrow> ('a \<Rightarrow> ('b, 's) js) \<Rightarrow> (js_error + 'b) \<times> 's" where
  "chain r m = (case r of (Inl err, s) \<Rightarrow> (Inl err, s) | (Inr x, s) \<Rightarrow> m x s)"

section \<open>The result event\<close>

text \<open>
  The event handed to \<open>onresult\<close>: \<open>event.results\<close> is an ordered list of results, a
  result is an ordered list of alternatives with an \<open>isFinal\<close> flag, and an alternative
  carries a \<open>transcript\<close>. These are the only parts the source reads.
\<close>

record alternative =
  transcript :: string

record result_group =
  alternatives :: "alternative list"
  isFinal :: bool

record result_event =
  results :: "result_group list"

section \<open>The host's recognition engine\<close>

text \<open>
  Callbacks are JavaScript functions of the caller: computations over the caller's own
  state \<open>'w\<close>. The declarations give \<^verbatim>\<open>(sentence: string, isFinal: boolean) => void\<close> for
  the result callback and \<^verbatim>\<open>(e?: Event) => void\<close> (\<^verbatim>\<open>ErrorEvent\<close> for \<open>onerror\<close>) for the
  others; the optional parameter is an \<open>option\<close>.
\<close>

type_synonym 'w result_callback = "string \<Rightarrow> bool \<Rightarrow> (unit, 'w) js"

type_synonym ('e, 'w) event_callback = "'e option \<Rightarrow> (unit, 'w) js"

datatype engine_call = Start_call | Stop_call

text \<open>
  Modelled from the spec: the \<open>SpeechRecognition\<close> object is supplied by the browser and
  is no part of the repository. Following the consumed collaborator contract it is a
  plain object with four settable fields, one settable slot per event kind (empty until
  a handler is assigned) and the operations \<open>start()\<close> and \<open>stop()\<close>, which return at
  once and report everything through events. The field \<open>invoked\<close> is the journal of the
  operations called on the engine, oldest first. \<open>maxAlternatives\<close> is declared a
  \<open>number\<close>; the model covers its integer values.
\<close>

record ('ev, 'err, 'w) engine =
  lang :: string
  interimResults :: bool
  maxAlternatives :: int
  continuous :: bool
  onresult :: "(result_event \<Rightarrow> (unit, 'w) js) option"
  onend :: "('ev, 'w) event_callback option"
  onerror :: "('err, 'w) event_callback option"
  onstart :: "('ev, 'w) event_callback option"
  onaudiostart :: "('ev, 'w) event_callback option"
  onsoundstart :: "('ev, 'w) event_callback option"
  onsoundend :: "('ev, 'w) event_callback option"
  onspeechstart :: "('ev, 'w) event_callback option"
  onspeechend :: "('ev, 'w) event_callback option"
  onnomatch :: "('ev, 'w) event_callback option"
  invoked :: "engine_call list"

definition start :: "('ev, 'err, 'w) engine \<Rightarrow> ('ev, 'err, 'w) engine" where
  "start e = e\<lparr>invoked := invoked e @ [Start_call]\<rparr>"

definition stop :: "('ev, 'err, 'w) engine \<Rightarrow> ('ev, 'err, 'w) engine" where
  "stop e = e\<lparr>invoked := invoked e @ [Stop_call]\<rparr>"

text \<open>
  Modelled from the spec: the host's event dispatch. The engine calls the handler held
  in the slot of the event's kind with the event, and drops the event when the slot is
  empty.
\<close>

definition dispatch :: "('a \<Rightarrow> (unit, 'w) js) option \<Rightarrow> 'a \<Rightarrow> (unit, 'w) js" where
  "dispatch slot ev w = (case slot of None \<Rightarrow> (Inr (), w) | Some handler \<Rightarrow> handler ev w)"

datatype ('ev, 'err) engine_event =
    ResultEvent result_event
  | EndEvent "'ev option"
  | ErrorEvent "'err option"
  | StartEvent "'ev option"
  | AudioStartEvent "'ev option"
  | SoundStartEvent "'ev option"
  | SoundEndEvent "'ev option"
  | SpeechStartEvent "'ev option"
  | SpeechEndEvent "'ev option"
  | NoMatchEvent "'ev option"

fun deliver :: "('ev, 'err, 'w) engine \<Rightarrow> ('ev, 'err) engine_event \<Rightarrow> (unit, 'w) js" where
  "deliver e (ResultEvent ev) = dispatch (onresult e) ev"
| "deliver e (EndEvent ev) = dispatch (onend e) ev"
| "deliver e (ErrorEvent ev) = dispatch (onerror e) ev"
| "deliver e (StartEvent ev) = dispatch (onstart e) ev"
| "deliver e (AudioStartEvent ev) = dispatch (onaudiostart e) ev"
| "deliver e (SoundStartEvent ev) = dispatch (onsoundstart e) ev"
| "deliver e (SoundEndEvent ev) = dispatch (onsoundend e) ev"
| "deliver e (SpeechStartEvent ev) = dispatch (onspeechstart e) ev"
| "deliver e (SpeechEndEvent ev) = dispatch (onspeechend e) ev"
| "deliver e (NoMatchEvent ev) = dispatch (onnomatch e) ev"

section \<open>The store\<close>

text \<open>
  A \<open>SpeechToText\<close> object has one field of its own, the private readonly
  \<open>recognition\<close>, a reference to its engine. The store maps references to the objects of
  either kind; \<open>next_ref\<close> is the next unused reference.
\<close>

record SpeechToText =
  recognition :: ref

record ('ev, 'err, 'w) store =
  builders :: "ref \<rightharpoonup> SpeechToText"
  engines :: "ref \<rightharpoonup> ('ev, 'err, 'w) engine"
  next_ref :: ref

text \<open>
  The global object: \<open>window.SpeechRecognition\<close> and
  \<open>window.webkitSpeechRecognition\<close>, each either undefined or a constructor. A
  constructor is given by the engine object that \<open>new\<close> makes of it.
\<close>

record ('ev, 'err, 'w) window =
  SpeechRecognition :: "('ev, 'err, 'w) engine option"
  webkitSpeechRecognition :: "('ev, 'err, 'w) engine option"

text \<open>
  The host's global scope, as far as the class reads it: the identifier \<open>window\<close> is
  bound to the global object in a browser, and is not bound at all in a host without
  one (a server-side runtime, a worker). The source names \<open>window\<close> without a
  \<open>typeof\<close> guard, and reading an identifier that is not bound throws a
  \<open>ReferenceError\<close>.
\<close>

type_synonym ('ev, 'err, 'w) host = "('ev, 'err, 'w) window option"

section \<open>The class SpeechToText\<close>

definition unsupported_message :: string where
  "unsupported_message =
     ''This browser doesn't support the speech recognition, please try using Google Chrome, Microsoft Edge or Safari.''"

text \<open>
  The constructor. The first thing it evaluates after installing the methods is
  \<open>window.SpeechRecognition\<close>, which throws a \<open>ReferenceError\<close> where \<open>window\<close> is
  not bound. \<open>a || b\<close> is \<open>a\<close> when \<open>a\<close> is defined (a function is truthy) and
  \<open>b\<close> otherwise. When the constructor throws, the \<open>new\<close> expression yields no
  reference and the object under construction is unreachable, so the store is left as
  it was. Otherwise \<open>this\<close> and the new engine are allocated and \<open>this.recognition\<close>
  refers to the engine.
\<close>

definition new_SpeechToText :: "('ev, 'err, 'w) host \<Rightarrow> (ref, ('ev, 'err, 'w) store) js" where
  "new_SpeechToText host h =
     (case host of
        None \<Rightarrow> (Inl ReferenceError, h)
      | Some win \<Rightarrow>
          (case (case SpeechRecognition win of
                   Some ctor \<Rightarrow> Some ctor
                 | None \<Rightarrow> webkitSpeechRecognition win) of
             None \<Rightarrow> (Inl (Error unsupported_message), h)
           | Some ctor \<Rightarrow>
               (let this = next_ref h; r = Suc this in
                (Inr this,
                 h\<lparr>builders := (builders h)(this \<mapsto> \<lparr>recognition = r\<rparr>),
                   engines := (engines h)(r \<mapsto> ctor),
                   next_ref := Suc r\<rparr>))))"

text \<open>
  \<open>_this.recognition\<close>: the engine reference held by the object and the engine behind
  it. A reference that the store does not bind cannot come out of the constructor; the
  model answers what a property access on \<open>undefined\<close> does, a \<open>TypeError\<close>.
\<close>

definition the_recognition ::
  "('ev, 'err, 'w) store \<Rightarrow> ref \<Rightarrow> (ref \<times> ('ev, 'err, 'w) engine) option" where
  "the_recognition h this =
     (case builders h this of
        None \<Rightarrow> None
      | Some obj \<Rightarrow>
          (case engines h (recognition obj) of
             None \<Rightarrow> None
           | Some e \<Rightarrow> Some (recognition obj, e)))"

text \<open>
  The body shared by every method: \<^verbatim>\<open>_this.recognition.<member> ...; return _this;\<close>, where
  \<open>upd\<close> is what the first statement does to the engine object.
\<close>

definition on_recognition ::
  "ref \<Rightarrow> (('ev, 'err, 'w) engine \<Rightarrow> ('ev, 'err, 'w) engine) \<Rightarrow> (ref, ('ev, 'err, 'w) store) js" where
  "on_recognition this upd h =
     (case the_recognition h this of
        None \<Rightarrow> (Inl TypeError, h)
      | Some (r, e) \<Rightarrow> (Inr this, h\<lparr>engines := (engines h)(r \<mapsto> upd e)\<rparr>))"

subsection \<open>Configuration setters\<close>

definition setInterimResults :: "ref \<Rightarrow> bool \<Rightarrow> (ref, ('ev, 'err, 'w) store) js" where
  "setInterimResults this newBool = on_recognition this (\<lambda>e. e\<lparr>interimResults := newBool\<rparr>)"

definition setLanguage :: "ref \<Rightarrow> string \<Rightarrow> (ref, ('ev, 'err, 'w) store) js" where
  "setLanguage this language = on_recognition this (\<lambda>e. e\<lparr>lang := language\<rparr>)"

definition setMaxAlternatives :: "ref \<Rightarrow> int \<Rightarrow> (ref, ('ev, 'err, 'w) store) js" where
  "setMaxAlternatives this num = on_recognition this (\<lambda>e. e\<lparr>maxAlternatives := num\<rparr>)"

definition setContinuous :: "ref \<Rightarrow> bool \<Rightarrow> (ref, ('ev, 'err, 'w) store) js" where
  "setContinuous this isContinuous = on_recognition this (\<lambda>e. e\<lparr>continuous := isContinuous\<rparr>)"

subsection \<open>Callback setters\<close>

text \<open>
  The function that \<open>setOnResult\<close> stores. \<open>resultsList[0]\<close> of an empty list is
  \<open>undefined\<close> and the next access, \<open>result[0]\<close>, throws; \<open>result[0]\<close> of a result
  without alternatives is \<open>undefined\<close> and \<open>alternative.transcript\<close> throws.
\<close>

definition onresult_wrapper :: "'w result_callback \<Rightarrow> result_event \<Rightarrow> (unit, 'w) js" where
  "onresult_wrapper callback event w =
     (let resultsList = results event in
      case resultsList of
        [] \<Rightarrow> (Inl TypeError, w)
      | result # _ \<Rightarrow>
          (case alternatives result of
             [] \<Rightarrow> (Inl TypeError, w)
           | alternative # _ \<Rightarrow>
               (let text = transcript alternative in
                callback text (isFinal result) w)))"

definition setOnResult :: "ref \<Rightarrow> 'w result_callback \<Rightarrow> (ref, ('ev, 'err, 'w) store) js" where
  "setOnResult this callback =
     on_recognition this (\<lambda>e. e\<lparr>onresult := Some (onresult_wrapper callback)\<rparr>)"

definition setOnEnd :: "ref \<Rightarrow> ('ev, 'w) event_callback \<Rightarrow> (ref, ('ev, 'err, 'w) store) js" where
  "setOnEnd this callback = on_recognition this (\<lambda>e. e\<lparr>onend := Some callback\<rparr>)"

definition setOnError :: "ref \<Rightarrow> ('err, 'w) event_callback \<Rightarrow> (ref, ('ev, 'err, 'w) store) js" where
  "setOnError this callback = on_recognition this (\<lambda>e. e\<lparr>onerror := Some callback\<rparr>)"

definition setOnStart :: "ref \<Rightarrow> ('ev, 'w) event_callback \<Rightarrow> (ref, ('ev, 'err, 'w) store) js" where
  "setOnStart this callback = on_recognition this (\<lambda>e. e\<lparr>onstart := Some callback\<rparr>)"

definition setOnAudioStart :: "ref \<Rightarrow> ('ev, 'w) event_callback \<Rightarrow> (ref, ('ev, 'err, 'w) store) js" where
  "setOnAudioStart this callback = on_recognition this (\<lambda>e. e\<lparr>onstart := Some callback\<rparr>)"

definition setOnSoundStart :: "ref \<Rightarrow> ('ev, 'w) event_callback \<Rightarrow> (ref, ('ev, 'err, 'w) store) js" where
  "setOnSoundStart this callback = on_recognition this (\<lambda>e. e\<lparr>onsoundstart := Some callback\<rparr>)"

definition setOnSoundEnd :: "ref \<Rightarrow> ('ev, 'w) event_callback \<Rightarrow> (ref, ('ev, 'err, 'w) store) js" where
  "setOnSoundEnd this callback = on_recognition this (\<lambda>e. e\<lparr>onsoundend := Some callback\<rparr>)"

definition setOnSpeechStart :: "ref \<Rightarrow> ('ev, 'w) event_callback \<Rightarrow> (ref, ('ev, 'err, 'w) store) js" where
  "setOnSpeechStart this callback = on_recognition this (\<lambda>e. e\<lparr>onspeechstart := Some callback\<rparr>)"

definition setOnSpeechEnd :: "ref \<Rightarrow> ('ev, 'w) event_callback \<Rightarrow> (ref, ('ev, 'err, 'w) store) js" where
  "setOnSpeechEnd this callback = on_recognition this (\<lambda>e. e\<lparr>onspeechend := Some callback\<rparr>)"

definition setOnNoMatch :: "ref \<Rightarrow> ('ev, 'w) event_callback \<Rightarrow> (ref, ('ev, 'err, 'w) store) js" where
  "setOnNoMatch this callback = on_recognition this (\<lambda>e. e\<lparr>onnomatch := Some callback\<rparr>)"

subsection \<open>Lifecycle control\<close>

definition startRecognition :: "ref \<Rightarrow> (ref, ('ev, 'err, 'w) store) js" where
  "startRecognition this = on_recognition this start"

definition stopRecognition :: "ref \<Rightarrow> (ref, ('ev, 'err, 'w) store) js" where
  "stopRecognition this = on_recognition this stop"

subsection \<open>Accessors\<close>

text \<open>
  The getters \<open>maxAlternatives\<close> and \<open>continuous\<close> of the prototype; the prefix keeps them
  apart from the engine's fields of the same names.
\<close>

definition get_maxAlternatives :: "ref \<Rightarrow> (int, ('ev, 'err, 'w) store) js" where
  "get_maxAlternatives this h =
     (case the_recognition h this of
        None \<Rightarrow> (Inl TypeError, h)
      | Some (r, e) \<Rightarrow> (Inr (maxAlternatives e), h))"

definition get_continuous :: "ref \<Rightarrow> (bool, ('ev, 'err, 'w) store) js" where
  "get_continuous this h =
     (case the_recognition h this of
        None \<Rightarrow> (Inl TypeError, h)
      | Some (r, e) \<Rightarrow> (Inr (continuous e), h))"

section \<open>Observing a session\<close>

text \<open>The engine object that a builder owns, and an engine event reaching that engine.\<close>

definition engine_of :: "('ev, 'err, 'w) store \<Rightarrow> ref \<Rightarrow> ('ev, 'err, 'w) engine option" where
  "engine_of h this = map_option snd (the_recognition h this)"

definition fire :: "('ev, 'err, 'w) store \<Rightarrow> ref \<Rightarrow> ('ev, 'err) engine_event \<Rightarrow> (unit, 'w) js" where
  "fire h this ev w =
     (case engine_of h this of
        None \<Rightarrow> (Inr (), w)
      | Some e \<Rightarrow> deliver e ev w)"

text \<open>
  Fixtures for concrete runs: callbacks that note each call they receive in the
  caller's state, a store without objects, an engine as a host hands it out (no handler
  assigned, nothing invoked), global objects with the standard constructor, with only
  the prefixed one and with neither, and the store after one construction in a host
  that has the standard constructor.
\<close>

datatype 'e noted = Noted_result nat string bool | Noted_event nat "'e option"

definition note_result :: "nat \<Rightarrow> 'e noted list result_callback" where
  "note_result tag text final w = (Inr (), w @ [Noted_result tag text final])"

definition note_event :: "nat \<Rightarrow> ('e, 'e noted list) event_callback" where
  "note_event tag ev w = (Inr (), w @ [Noted_event tag ev])"

type_synonym sample_engine = "(unit, unit, unit noted list) engine"

type_synonym sample_store = "(unit, unit, unit noted list) store"

type_synonym sample_window = "(unit, unit, unit noted list) window"

definition empty_store :: sample_store where
  "empty_store = \<lparr>builders = Map.empty, engines = Map.empty, next_ref = 0\<rparr>"

definition fresh_engine :: sample_engine where
  "fresh_engine =
     \<lparr>lang = '''', interimResults = False, maxAlternatives = 1, continuous = False,
      onresult = None, onend = None, onerror = None, onstart = None, onaudiostart = None,
      onsoundstart = None, onsoundend = None, onspeechstart = None, onspeechend = None,
      onnomatch = None, invoked = []\<rparr>"

definition standard_window :: sample_window where
  "standard_window = \<lparr>SpeechRecognition = Some fresh_engine, webkitSpeechRecognition = None\<rparr>"

definition webkit_window :: sample_window where
  "webkit_window = \<lparr>SpeechRecognition = None, webkitSpeechRecognition = Some fresh_engine\<rparr>"

definition bare_window :: sample_window where
  "bare_window = \<lparr>SpeechRecognition = None, webkitSpeechRecognition = None\<rparr>"

definition session :: sample_store where
  "session = snd (new_SpeechToText (Some standard_window) empty_store)"

section \<open>Vocabulary of the properties\<close>

text \<open>
  A host offers the recognition capability when its global object has the standard or
  the prefixed constructor; a host without a global object offers neither.
\<close>

definition recognition_available :: "('ev, 'err, 'w) host \<Rightarrow> bool" where
  "recognition_available host =
     (case host of
        None \<Rightarrow> False
      | Some win \<Rightarrow> SpeechRecognition win \<noteq> None \<or> webkitSpeechRecognition win \<noteq> None)"

text \<open>
  What the function stored by \<open>setOnResult\<close> needs of an event: a first result, and a
  first alternative in it.
\<close>

definition has_first_alternative :: "result_event \<Rightarrow> bool" where
  "has_first_alternative event =
     (case results event of [] \<Rightarrow> False | result # _ \<Rightarrow> alternatives result \<noteq> [])"

text \<open>
  A call on \<open>this\<close> in the store \<open>h\<close> with outcome \<open>r\<close> returned the very reference
  it was called on, and allocated no object: the builder objects and the next unused
  reference are as before.
\<close>

definition returns_this ::
  "ref \<Rightarrow> ('ev, 'err, 'w) store \<Rightarrow> (js_error + ref) \<times> ('ev, 'err, 'w) store \<Rightarrow> bool" where
  "returns_this this h r \<longleftrightarrow>
     fst r = Inr this \<and> builders (snd r) = builders h \<and> next_ref (snd r) = next_ref h"

text \<open>The chained calls \<^verbatim>\<open>this.setter(f).setter(g)\<close>.\<close>

definition register_twice ::
  "(ref \<Rightarrow> 'c \<Rightarrow> (ref, 's) js) \<Rightarrow> ref \<Rightarrow> 'c \<Rightarrow> 'c \<Rightarrow> 's \<Rightarrow> (js_error + ref) \<times> 's" where
  "register_twice setter this f g h = chain (setter this f h) (\<lambda>r. setter r g)"

section \<open>Basic facts\<close>

lemmas config_setter_defs =
  setInterimResults_def setLanguage_def setMaxAlternatives_def setContinuous_def

lemmas callback_setter_defs =
  setOnResult_def setOnEnd_def setOnError_def setOnStart_def setOnAudioStart_def
  setOnSoundStart_def setOnSoundEnd_def setOnSpeechStart_def setOnSpeechEnd_def setOnNoMatch_def

lemmas lifecycle_defs = startRecognition_def stopRecognition_def

lemma engine_of_Some:
  "engine_of h this = Some e \<longleftrightarrow> (\<exists>r. the_recognition h this = Some (r, e))"
  by (auto simp: engine_of_def)

lemma on_recognition_eq:
  assumes "the_recognition h this = Some (r, e)"
  shows "on_recognition this upd h = (Inr this, h\<lparr>engines := (engines h)(r \<mapsto> upd e)\<rparr>)"
  using assms by (simp add: on_recognition_def)

lemma the_recognition_update:
  assumes "the_recognition h this = Some (r, e)"
  shows "the_recognition (h\<lparr>engines := (engines h)(r \<mapsto> e')\<rparr>) this = Some (r, e')"
  using assms by (auto simp: the_recognition_def split: option.splits)

lemma the_recognition_on_recognition:
  assumes "the_recognition h this = Some (r, e)"
  shows "the_recognition (snd (on_recognition this upd h)) this = Some (r, upd e)"
  using assms by (simp add: on_recognition_eq the_recognition_update)

text \<open>Every method keeps the builder attached to its engine, and changes that engine only.\<close>

lemma engine_of_on_recognition:
  assumes "engine_of h this = Some e"
  shows "engine_of (snd (on_recognition this upd h)) this = Some (upd e)"
  using assms the_recognition_on_recognition unfolding engine_of_Some by blast

lemma fst_on_recognition:
  assumes "engine_of h this = Some e"
  shows "fst (on_recognition this upd h) = Inr this"
  using assms on_recognition_eq unfolding engine_of_Some by fastforce

lemma returns_this_on_recognition:
  assumes "engine_of h this = Some e"
  shows "returns_this this h (on_recognition this upd h)"
  using assms on_recognition_eq [of h this _ e upd] unfolding engine_of_Some returns_this_def
  by auto

lemma chain_on_recognition:
  assumes "engine_of h this = Some e"
  shows "chain (on_recognition this upd h) m = m this (snd (on_recognition this upd h))"
  using assms on_recognition_eq [of h this _ e upd] by (auto simp: engine_of_Some chain_def)

text \<open>Two chained methods act on the engine as the composition of their assignments.\<close>

lemma on_recognition_twice:
  "chain (on_recognition this f h) (\<lambda>r. on_recognition r g) = on_recognition this (g \<circ> f) h"
proof (cases "the_recognition h this")
  case None
  then show ?thesis by (simp add: on_recognition_def chain_def)
next
  case (Some p)
  obtain r e where p: "p = (r, e)" by (cases p)
  have "the_recognition (h\<lparr>engines := (engines h)(r \<mapsto> f e)\<rparr>) this = Some (r, f e)"
    using Some p by (simp add: the_recognition_update)
  then show ?thesis
    using Some p by (simp add: on_recognition_def chain_def)
qed

lemma register_twice_on_recognition:
  assumes "\<And>f g e. upd g (upd f e) = upd g e"
  shows "register_twice (\<lambda>this c. on_recognition this (upd c)) this f g h
           = on_recognition this (upd g) h"
proof -
  have "upd g \<circ> upd f = upd g"
    using assms by (intro ext) simp
  then show ?thesis
    by (simp add: register_twice_def on_recognition_twice)
qed

lemma register_twice_eq:
  "register_twice setOnResult this fr gr h = setOnResult this gr h"
  "register_twice setOnEnd this f g h = setOnEnd this g h"
  "register_twice setOnError this fe ge h = setOnError this ge h"
  "register_twice setOnStart this f g h = setOnStart this g h"
  "register_twice setOnAudioStart this f g h = setOnAudioStart this g h"
  "register_twice setOnSoundStart this f g h = setOnSoundStart this g h"
  "register_twice setOnSoundEnd this f g h = setOnSoundEnd this g h"
  "register_twice setOnSpeechStart this f g h = setOnSpeechStart this g h"
  "register_twice setOnSpeechEnd this f g h = setOnSpeechEnd this g h"
  "register_twice setOnNoMatch this f g h = setOnNoMatch this g h"
  unfolding callback_setter_defs
  by (rule register_twice_on_recognition, simp)+

lemma lifecycle_eta:
  "startRecognition = (\<lambda>this. on_recognition this start)"
  "stopRecognition = (\<lambda>this. on_recognition this stop)"
  by (intro ext, simp add: lifecycle_defs)+

lemma fire_after:
  assumes "engine_of h this = Some e"
  shows "fire (snd (on_recognition this upd h)) this ev w = deliver (upd e) ev w"
  using engine_of_on_recognition [OF assms] by (simp add: fire_def)

lemma get_maxAlternatives_eq:
  assumes "engine_of h this = Some e"
  shows "get_maxAlternatives this h = (Inr (maxAlternatives e), h)"
  using assms by (auto simp: get_maxAlternatives_def engine_of_Some)

lemma get_continuous_eq:
  assumes "engine_of h this = Some e"
  shows "get_continuous this h = (Inr (continuous e), h)"
  using assms by (auto simp: get_continuous_def engine_of_Some)

lemma onresult_wrapper_first:
  assumes "results ev = g # gs" and "alternatives g = a # as"
  shows "onresult_wrapper cb ev w = cb (transcript a) (isFinal g) w"
  using assms by (simp add: onresult_wrapper_def)

lemma onresult_wrapper_throws:
  assumes "\<not> has_first_alternative ev"
  shows "onresult_wrapper cb ev w = (Inl TypeError, w)"
  using assms by (simp add: onresult_wrapper_def has_first_alternative_def split: list.splits)

text \<open>The sample session: builder \<open>0\<close> owns the engine at reference \<open>1\<close>.\<close>

lemma session_recognition:
  "the_recognition session 0 = Some (Suc 0, fresh_engine)"
  by (simp add: session_def new_SpeechToText_def standard_window_def empty_store_def
      the_recognition_def Let_def)

lemma session_engine: "engine_of session 0 = Some fresh_engine"
  by (simp add: engine_of_def session_recognition)

text \<open>
  With a callback that notes its calls, a result event that has a first alternative
  adds exactly one entry to the notes.
\<close>

lemma setOnResult_notes_one_call:
  assumes "engine_of h this = Some e"
    and "results ev = g # gs" and "alternatives g = a # as"
  shows "fire (snd (setOnResult this (note_result tag) h)) this (ResultEvent ev) w
           = (Inr (), w @ [Noted_result tag (transcript a) (isFinal g)])"
  using assms
  by (simp add: setOnResult_def fire_after dispatch_def onresult_wrapper_first note_result_def)

section \<open>The result callback\<close>

text \<open>
  Claim C1, as the code has it. Let \<open>setOnResult(cb)\<close> have been called on a constructed
  builder. For every result event whose list of results has a first result \<open>g\<close> and
  whose first result has a first alternative \<open>a\<close>, delivering the event to the engine's
  \<open>onresult\<close> slot runs the stored wrapper, whose whole effect is the one call
  \<open>cb(a.transcript, g.isFinal)\<close>. The setter itself returns the builder and leaves the
  wrapper around \<open>cb\<close> in the slot.
\<close>

theorem setOnResult_invokes_callback_once:
  assumes "engine_of h this = Some e"
    and "results ev = g # gs" and "alternatives g = a # as"
  shows "fst (setOnResult this cb h) = Inr this \<and>
         engine_of (snd (setOnResult this cb h)) this
           = Some (e\<lparr>onresult := Some (onresult_wrapper cb)\<rparr>) \<and>
         fire (snd (setOnResult this cb h)) this (ResultEvent ev) w
           = cb (transcript a) (isFinal g) w"
  using assms
  by (simp add: setOnResult_def fst_on_recognition engine_of_on_recognition fire_after
      dispatch_def onresult_wrapper_first)

text \<open>
  The event of the specification's example, one result with the one alternative
  \<open>hello\<close>, not final: the noting callback is called once, with \<open>(hello, false)\<close>.
\<close>

theorem setOnResult_invokes_callback_once_hello:
  "engine_of session 0 = Some fresh_engine \<and>
   results \<lparr>results = [\<lparr>alternatives = [\<lparr>transcript = ''hello''\<rparr>], isFinal = False\<rparr>]\<rparr>
     = [\<lparr>alternatives = [\<lparr>transcript = ''hello''\<rparr>], isFinal = False\<rparr>] \<and>
   alternatives \<lparr>alternatives = [\<lparr>transcript = ''hello''\<rparr>], isFinal = False\<rparr>
     = [\<lparr>transcript = ''hello''\<rparr>] \<and>
   fst (setOnResult 0 (note_result 7) session) = Inr 0 \<and>
   fire (snd (setOnResult 0 (note_result 7) session)) 0
     (ResultEvent \<lparr>results = [\<lparr>alternatives = [\<lparr>transcript = ''hello''\<rparr>], isFinal = False\<rparr>]\<rparr>) []
     = (Inr (), [Noted_result 7 ''hello'' False])"
  using setOnResult_invokes_callback_once [of session 0 fresh_engine
      "\<lparr>results = [\<lparr>alternatives = [\<lparr>transcript = ''hello''\<rparr>], isFinal = False\<rparr>]\<rparr>"
      "\<lparr>alternatives = [\<lparr>transcript = ''hello''\<rparr>], isFinal = False\<rparr>" "[]"
      "\<lparr>transcript = ''hello''\<rparr>" "[]" "note_result 7" "[]"]
  by (simp add: session_engine note_result_def)

text \<open>
  A result event without results: the wrapper throws a \<open>TypeError\<close> and the noting
  callback has received no call, where one call was claimed for every result event.
\<close>

theorem setOnResult_empty_event_no_call:
  "fire (snd (setOnResult 0 (note_result 7) session)) 0 (ResultEvent \<lparr>results = []\<rparr>) []
     = (Inl TypeError, [])"
  by (simp add: setOnResult_def fire_after [OF session_engine] dispatch_def onresult_wrapper_def)

text \<open>
  Claim C10. The wrapper stored by \<open>setOnResult\<close> reads \<open>event.results[0]\<close> and then
  element \<open>[0]\<close> of it without a guard. For an event with no result, or whose first
  result has no alternative, it throws a \<open>TypeError\<close> and the caller's state is
  untouched whatever the callback is, so the callback is not called; this is also what
  delivering such an event to the engine of a builder does after \<open>setOnResult(cb)\<close>. For
  every other event the first result and its first alternative exist and the wrapper
  is the call of the callback on them.
\<close>

theorem onresult_wrapper_precondition:
  "(\<not> has_first_alternative ev \<longrightarrow>
      onresult_wrapper cb ev w = (Inl TypeError, w) \<and>
      (engine_of h this = Some e \<longrightarrow>
         fire (snd (setOnResult this cb h)) this (ResultEvent ev) w = (Inl TypeError, w))) \<and>
   (has_first_alternative ev \<longrightarrow>
      (\<exists>g gs a as. results ev = g # gs \<and> alternatives g = a # as \<and>
         onresult_wrapper cb ev w = cb (transcript a) (isFinal g) w))"
proof (intro conjI impI)
  assume n: "\<not> has_first_alternative ev"
  then show "onresult_wrapper cb ev w = (Inl TypeError, w)"
    by (rule onresult_wrapper_throws)
  assume "engine_of h this = Some e"
  then show "fire (snd (setOnResult this cb h)) this (ResultEvent ev) w = (Inl TypeError, w)"
    using n by (simp add: setOnResult_def fire_after dispatch_def onresult_wrapper_throws)
next
  assume "has_first_alternative ev"
  then obtain g gs a as where "results ev = g # gs" "alternatives g = a # as"
    by (auto simp: has_first_alternative_def neq_Nil_conv split: list.splits)
  then show "\<exists>g gs a as. results ev = g # gs \<and> alternatives g = a # as \<and>
         onresult_wrapper cb ev w = cb (transcript a) (isFinal g) w"
    by (auto simp: onresult_wrapper_first)
qed

theorem onresult_wrapper_precondition_witness:
  "\<not> has_first_alternative \<lparr>results = []\<rparr> \<and>
   \<not> has_first_alternative \<lparr>results = [\<lparr>alternatives = [], isFinal = True\<rparr>]\<rparr> \<and>
   has_first_alternative \<lparr>results = [\<lparr>alternatives = [\<lparr>transcript = ''ok''\<rparr>], isFinal = True\<rparr>]\<rparr> \<and>
   engine_of session 0 = Some fresh_engine \<and>
   onresult_wrapper (note_result 3) \<lparr>results = []\<rparr> [] = (Inl TypeError, [] :: unit noted list) \<and>
   onresult_wrapper (note_result 3) \<lparr>results = [\<lparr>alternatives = [], isFinal = True\<rparr>]\<rparr> []
     = (Inl TypeError, [] :: unit noted list) \<and>
   fire (snd (setOnResult 0 (note_result 3) session)) 0
     (ResultEvent \<lparr>results = [\<lparr>alternatives = [], isFinal = True\<rparr>]\<rparr>) [] = (Inl TypeError, []) \<and>
   onresult_wrapper (note_result 3)
     \<lparr>results = [\<lparr>alternatives = [\<lparr>transcript = ''ok''\<rparr>], isFinal = True\<rparr>]\<rparr> []
     = (Inr (), [Noted_result 3 ''ok'' True :: unit noted])"
  using
    onresult_wrapper_precondition [where ev = "\<lparr>results = []\<rparr>" and cb = "note_result 3"
      and w = "[] :: unit noted list" and h = session and this = 0 and e = fresh_engine]
    onresult_wrapper_precondition [where ev = "\<lparr>results = [\<lparr>alternatives = [], isFinal = True\<rparr>]\<rparr>"
      and cb = "note_result 3" and w = "[] :: unit noted list"
      and h = session and this = 0 and e = fresh_engine]
    onresult_wrapper_precondition
      [where ev = "\<lparr>results = [\<lparr>alternatives = [\<lparr>transcript = ''ok''\<rparr>], isFinal = True\<rparr>]\<rparr>"
      and cb = "note_result 3" and w = "[] :: unit noted list"
      and h = session and this = 0 and e = fresh_engine]
  by (simp add: has_first_alternative_def session_engine note_result_def)

section \<open>Construction\<close>

text \<open>
  Claim C2, as the code has it. In a host whose global object \<open>window\<close> exists and has
  neither \<open>SpeechRecognition\<close> nor \<open>webkitSpeechRecognition\<close>, \<open>new SpeechToText()\<close>
  throws an \<open>Error\<close> whose message sends the caller to a browser that has the
  capability; no reference is returned and the store holds no new object. In a host
  without a \<open>window\<close> global, construction fails at once as well and leaves no
  instance, but what is thrown is a \<open>ReferenceError\<close>, with no guidance. In a host
  where one of the two constructors is defined, construction returns a reference to a
  builder, and that builder holds the engine made by the standard constructor if
  there is one and by the prefixed one otherwise. So construction returns a builder
  exactly in the hosts that offer the capability, and in every other host it throws
  and leaves the store as it was.
\<close>

theorem constructor_needs_capability:
  "new_SpeechToText None h = (Inl ReferenceError, h) \<and>
   (SpeechRecognition win = None \<and> webkitSpeechRecognition win = None \<longrightarrow>
      new_SpeechToText (Some win) h = (Inl (Error unsupported_message), h)) \<and>
   (SpeechRecognition win = Some ctor \<or>
    SpeechRecognition win = None \<and> webkitSpeechRecognition win = Some ctor \<longrightarrow>
      fst (new_SpeechToText (Some win) h) = Inr (next_ref h) \<and>
      engine_of (snd (new_SpeechToText (Some win) h)) (next_ref h) = Some ctor) \<and>
   (\<not> recognition_available host \<longrightarrow>
      (\<exists>err. new_SpeechToText host h = (Inl err, h))) \<and>
   (recognition_available host \<longrightarrow>
      fst (new_SpeechToText host h) = Inr (next_ref h) \<and>
      engine_of (snd (new_SpeechToText host h)) (next_ref h) \<noteq> None)"
proof (intro conjI impI)
  show "new_SpeechToText None h = (Inl ReferenceError, h)"
    by (simp add: new_SpeechToText_def)
next
  assume "SpeechRecognition win = None \<and> webkitSpeechRecognition win = None"
  then show "new_SpeechToText (Some win) h = (Inl (Error unsupported_message), h)"
    by (simp add: new_SpeechToText_def)
next
  assume a: "SpeechRecognition win = Some ctor \<or>
    SpeechRecognition win = None \<and> webkitSpeechRecognition win = Some ctor"
  then show "fst (new_SpeechToText (Some win) h) = Inr (next_ref h)"
    by (auto simp: new_SpeechToText_def Let_def)
  from a show "engine_of (snd (new_SpeechToText (Some win) h)) (next_ref h) = Some ctor"
    by (auto simp: new_SpeechToText_def Let_def engine_of_def the_recognition_def)
next
  assume "\<not> recognition_available host"
  then show "\<exists>err. new_SpeechToText host h = (Inl err, h)"
    by (auto simp: recognition_available_def new_SpeechToText_def split: option.splits)
next
  assume a: "recognition_available host"
  then show "fst (new_SpeechToText host h) = Inr (next_ref h)"
    by (auto simp: recognition_available_def new_SpeechToText_def Let_def split: option.splits)
  from a show "engine_of (snd (new_SpeechToText host h)) (next_ref h) \<noteq> None"
    by (auto simp: recognition_available_def new_SpeechToText_def Let_def engine_of_def
        the_recognition_def split: option.splits)
qed

theorem constructor_needs_capability_witness:
  "new_SpeechToText None empty_store = (Inl ReferenceError, empty_store) \<and>
   SpeechRecognition bare_window = None \<and>
   webkitSpeechRecognition bare_window = None \<and>
   \<not> recognition_available (Some bare_window) \<and>
   new_SpeechToText (Some bare_window) empty_store = (Inl (Error unsupported_message), empty_store) \<and>
   SpeechRecognition webkit_window = None \<and>
   webkitSpeechRecognition webkit_window = Some fresh_engine \<and>
   recognition_available (Some webkit_window) \<and>
   fst (new_SpeechToText (Some webkit_window) empty_store) = Inr 0 \<and>
   engine_of (snd (new_SpeechToText (Some webkit_window) empty_store)) 0 = Some fresh_engine \<and>
   SpeechRecognition standard_window = Some fresh_engine \<and>
   recognition_available (Some standard_window) \<and>
   fst (new_SpeechToText (Some standard_window) empty_store) = Inr 0 \<and>
   engine_of (snd (new_SpeechToText (Some standard_window) empty_store)) 0 = Some fresh_engine"
  using constructor_needs_capability [where win = bare_window and h = empty_store
      and host = "Some bare_window" and ctor = fresh_engine]
    constructor_needs_capability [where win = webkit_window and h = empty_store
      and host = "Some webkit_window" and ctor = fresh_engine]
    constructor_needs_capability [where win = standard_window and h = empty_store
      and host = "Some standard_window" and ctor = fresh_engine]
  by (auto simp: recognition_available_def bare_window_def webkit_window_def standard_window_def
      empty_store_def)

text \<open>
  A host without a \<open>window\<close> global offers no recognition capability, and there the
  constructor throws a \<open>ReferenceError\<close>, which is not the \<open>Error\<close> with the guiding
  message that was claimed for every host lacking the capability.
\<close>

theorem constructor_without_window_reference_error:
  "\<not> recognition_available (None :: sample_window option) \<and>
   new_SpeechToText None empty_store = (Inl ReferenceError, empty_store) \<and>
   new_SpeechToText None empty_store \<noteq> (Inl (Error unsupported_message), empty_store)"
  by (simp add: recognition_available_def new_SpeechToText_def)

section \<open>Configuration\<close>

text \<open>
  Claim C4. On a constructed builder, a configuration setter stores its argument as
  it is, with no validation: for every integer \<open>n\<close>, also below 1,
  \<open>setMaxAlternatives(n)\<close> followed by the accessor \<open>maxAlternatives\<close> yields \<open>n\<close>, and
  for every boolean \<open>b\<close>, \<open>setContinuous(b)\<close> followed by the accessor \<open>continuous\<close>
  yields \<open>b\<close>. The two setters without an accessor, \<open>setLanguage\<close> and
  \<open>setInterimResults\<close>, leave their argument in the engine's field in the same way.
\<close>

theorem setter_then_accessor:
  assumes "engine_of h this = Some e"
  shows "chain (setMaxAlternatives this n h) get_maxAlternatives
           = (Inr n, snd (setMaxAlternatives this n h)) \<and>
         chain (setContinuous this b h) get_continuous
           = (Inr b, snd (setContinuous this b h)) \<and>
         engine_of (snd (setMaxAlternatives this n h)) this = Some (e\<lparr>maxAlternatives := n\<rparr>) \<and>
         engine_of (snd (setContinuous this b h)) this = Some (e\<lparr>continuous := b\<rparr>) \<and>
         engine_of (snd (setLanguage this s h)) this = Some (e\<lparr>lang := s\<rparr>) \<and>
         engine_of (snd (setInterimResults this i h)) this = Some (e\<lparr>interimResults := i\<rparr>)"
  using assms
  by (simp add: config_setter_defs chain_on_recognition engine_of_on_recognition
      get_maxAlternatives_eq [where e = "e\<lparr>maxAlternatives := n\<rparr>"]
      get_continuous_eq [where e = "e\<lparr>continuous := b\<rparr>"])

theorem setter_then_accessor_witness:
  "engine_of session 0 = Some fresh_engine \<and>
   fst (chain (setMaxAlternatives 0 (- 3) session) get_maxAlternatives) = Inr (- 3) \<and>
   fst (chain (setMaxAlternatives 0 0 session) get_maxAlternatives) = Inr 0 \<and>
   fst (chain (setMaxAlternatives 0 5 session) get_maxAlternatives) = Inr 5 \<and>
   fst (chain (setContinuous 0 True session) get_continuous) = Inr True"
  using setter_then_accessor [where h = session and this = 0 and e = fresh_engine and n = "- 3" and b = True]
    setter_then_accessor [where h = session and this = 0 and e = fresh_engine and n = 0 and b = True]
    setter_then_accessor [where h = session and this = 0 and e = fresh_engine and n = 5 and b = True]
  by (simp add: session_engine)

text \<open>
  Claim C9. \<open>setLanguage(s).setContinuous(b)\<close> and \<open>setContinuous(b).setLanguage(s)\<close>
  have the same outcome and leave the same store, for every string \<open>s\<close> and boolean
  \<open>b\<close>; on a constructed builder the engine ends with both fields set and every other
  field as before.
\<close>

theorem setLanguage_setContinuous_commute:
  "chain (setLanguage this s h) (\<lambda>r. setContinuous r b)
     = chain (setContinuous this b h) (\<lambda>r. setLanguage r s) \<and>
   (engine_of h this = Some e \<longrightarrow>
      engine_of (snd (chain (setLanguage this s h) (\<lambda>r. setContinuous r b))) this
        = Some (e\<lparr>lang := s, continuous := b\<rparr>))"
proof -
  have comm: "(\<lambda>e::('a, 'b, 'c) engine. e\<lparr>continuous := b\<rparr>) \<circ> (\<lambda>e. e\<lparr>lang := s\<rparr>)
        = (\<lambda>e. e\<lparr>lang := s\<rparr>) \<circ> (\<lambda>e. e\<lparr>continuous := b\<rparr>)"
    by (rule ext) simp
  have l: "chain (setLanguage this s h) (\<lambda>r. setContinuous r b)
        = on_recognition this ((\<lambda>e. e\<lparr>continuous := b\<rparr>) \<circ> (\<lambda>e. e\<lparr>lang := s\<rparr>)) h"
    unfolding setLanguage_def setContinuous_def by (rule on_recognition_twice)
  have r: "chain (setContinuous this b h) (\<lambda>r. setLanguage r s)
        = on_recognition this ((\<lambda>e. e\<lparr>lang := s\<rparr>) \<circ> (\<lambda>e. e\<lparr>continuous := b\<rparr>)) h"
    unfolding setLanguage_def setContinuous_def by (rule on_recognition_twice)
  show ?thesis
    using l r comm by (simp add: engine_of_on_recognition)
qed

theorem setLanguage_setContinuous_commute_witness:
  "engine_of session 0 = Some fresh_engine \<and>
   chain (setLanguage 0 ''en-US'' session) (\<lambda>r. setContinuous r True)
     = chain (setContinuous 0 True session) (\<lambda>r. setLanguage r ''en-US'') \<and>
   engine_of (snd (chain (setContinuous 0 True session) (\<lambda>r. setLanguage r ''en-US''))) 0
     = Some (fresh_engine\<lparr>lang := ''en-US'', continuous := True\<rparr>)"
  using setLanguage_setContinuous_commute [where h = session and this = 0 and e = fresh_engine
      and s = "''en-US''" and b = True]
  by (auto simp: session_engine)

section \<open>Chaining\<close>

text \<open>
  Claim C5. On a constructed builder, each of the four configuration setters, the ten
  callback setters, \<open>startRecognition\<close> and \<open>stopRecognition\<close> returns, for every
  argument, the reference of the builder it was called on; no object is allocated by
  the call, so what is returned is the instance itself and not a copy.
\<close>

theorem setters_return_this:
  assumes "engine_of h this = Some e"
  shows "returns_this this h (setInterimResults this newBool h) \<and>
         returns_this this h (setLanguage this language h) \<and>
         returns_this this h (setMaxAlternatives this num h) \<and>
         returns_this this h (setContinuous this isContinuous h) \<and>
         returns_this this h (setOnResult this cb h) \<and>
         returns_this this h (setOnEnd this c1 h) \<and>
         returns_this this h (setOnError this c2 h) \<and>
         returns_this this h (setOnStart this c3 h) \<and>
         returns_this this h (setOnAudioStart this c4 h) \<and>
         returns_this this h (setOnSoundStart this c5 h) \<and>
         returns_this this h (setOnSoundEnd this c6 h) \<and>
         returns_this this h (setOnSpeechStart this c7 h) \<and>
         returns_this this h (setOnSpeechEnd this c8 h) \<and>
         returns_this this h (setOnNoMatch this c9 h) \<and>
         returns_this this h (startRecognition this h) \<and>
         returns_this this h (stopRecognition this h)"
  unfolding config_setter_defs callback_setter_defs lifecycle_defs
  by (intro conjI returns_this_on_recognition [OF assms])

theorem setters_return_this_witness:
  "engine_of session 0 = Some fresh_engine \<and>
   returns_this 0 session (setLanguage 0 ''en-US'' session) \<and>
   fst (setLanguage 0 ''en-US'' session) = Inr 0 \<and>
   fst (setOnResult 0 (note_result 1) session) = Inr 0 \<and>
   fst (startRecognition 0 session) = Inr 0"
  using setters_return_this [where h = session and this = 0 and e = fresh_engine
      and language = "''en-US''" and cb = "note_result 1"]
  by (simp add: session_engine returns_this_def)

section \<open>Lifecycle\<close>

text \<open>
  Claim C8. On a constructed builder whose engine sits at reference \<open>r\<close>,
  \<open>startRecognition()\<close> returns the builder and its only effect is one \<open>start()\<close> on
  the engine, and \<open>stopRecognition()\<close> returns the builder and its only effect is one
  \<open>stop()\<close> on the engine: the journal of the engine grows by that one entry and
  nothing else in the store changes. The builder keeps no record of being started:
  whatever the journal holds already, a second \<open>startRecognition()\<close> reaches the
  engine again, and so does a start after a stop.
\<close>

theorem lifecycle_delegates_to_engine:
  assumes "the_recognition h this = Some (r, e)"
  shows "startRecognition this h
           = (Inr this, h\<lparr>engines := (engines h)(r \<mapsto> e\<lparr>invoked := invoked e @ [Start_call]\<rparr>)\<rparr>) \<and>
         stopRecognition this h
           = (Inr this, h\<lparr>engines := (engines h)(r \<mapsto> e\<lparr>invoked := invoked e @ [Stop_call]\<rparr>)\<rparr>) \<and>
         engine_of (snd (chain (startRecognition this h) startRecognition)) this
           = Some (e\<lparr>invoked := invoked e @ [Start_call, Start_call]\<rparr>) \<and>
         engine_of (snd (chain (stopRecognition this h) startRecognition)) this
           = Some (e\<lparr>invoked := invoked e @ [Stop_call, Start_call]\<rparr>)"
proof -
  have eo: "engine_of h this = Some e"
    using assms by (auto simp: engine_of_Some)
  have one: "startRecognition this h
           = (Inr this, h\<lparr>engines := (engines h)(r \<mapsto> e\<lparr>invoked := invoked e @ [Start_call]\<rparr>)\<rparr>)"
    "stopRecognition this h
           = (Inr this, h\<lparr>engines := (engines h)(r \<mapsto> e\<lparr>invoked := invoked e @ [Stop_call]\<rparr>)\<rparr>)"
    using assms by (simp_all add: lifecycle_defs on_recognition_eq start_def stop_def)
  have two: "engine_of (snd (chain (on_recognition this p h) (\<lambda>r. on_recognition r q))) this
      = Some (q (p e))" for p q
    using eo by (simp add: on_recognition_twice engine_of_on_recognition)
  have "engine_of (snd (chain (startRecognition this h) startRecognition)) this
           = Some (e\<lparr>invoked := invoked e @ [Start_call, Start_call]\<rparr>)"
    "engine_of (snd (chain (stopRecognition this h) startRecognition)) this
           = Some (e\<lparr>invoked := invoked e @ [Stop_call, Start_call]\<rparr>)"
    unfolding lifecycle_eta by (simp_all add: two start_def stop_def)
  with one show ?thesis by simp
qed

theorem lifecycle_delegates_to_engine_witness:
  "the_recognition session 0 = Some (Suc 0, fresh_engine) \<and>
   startRecognition 0 session
     = (Inr 0, session\<lparr>engines := (engines session)(Suc 0 \<mapsto> fresh_engine\<lparr>invoked := [Start_call]\<rparr>)\<rparr>) \<and>
   stopRecognition 0 session
     = (Inr 0, session\<lparr>engines := (engines session)(Suc 0 \<mapsto> fresh_engine\<lparr>invoked := [Stop_call]\<rparr>)\<rparr>)"
  using lifecycle_delegates_to_engine [where h = session and this = 0 and r = "Suc 0" and e = fresh_engine]
  by (simp add: session_recognition fresh_engine_def)

section \<open>Callback slots\<close>

text \<open>
  Claim C3. \<open>setOnAudioStart\<close> assigns the engine's \<open>onstart\<close> slot, the slot
  \<open>setOnStart\<close> assigns: the two methods are the same function of their arguments.
  On a constructed builder, \<open>setOnStart(f)\<close> then \<open>setOnAudioStart(g)\<close> leaves the
  engine as it was but for \<open>onstart\<close>, which holds \<open>g\<close>; the \<open>onaudiostart\<close> slot holds
  what it held before, and an audio-start event is answered after
  \<open>setOnAudioStart(g)\<close> exactly as it was answered before it.
\<close>

theorem setOnAudioStart_assigns_onstart:
  "setOnAudioStart this g h = setOnStart this g h \<and>
   (engine_of h this = Some e \<longrightarrow>
      engine_of (snd (chain (setOnStart this f h) (\<lambda>r. setOnAudioStart r g))) this
        = Some (e\<lparr>onstart := Some g\<rparr>) \<and>
      onaudiostart (e\<lparr>onstart := Some g\<rparr>) = onaudiostart e \<and>
      fire (snd (setOnAudioStart this g h)) this (AudioStartEvent x) w
        = fire h this (AudioStartEvent x) w)"
proof (intro conjI impI)
  show "setOnAudioStart this g h = setOnStart this g h"
    by (simp add: setOnAudioStart_def setOnStart_def)
  show "onaudiostart (e\<lparr>onstart := Some g\<rparr>) = onaudiostart e"
    by simp
next
  assume e: "engine_of h this = Some e"
  have "chain (setOnStart this f h) (\<lambda>r. setOnAudioStart r g)
          = on_recognition this ((\<lambda>e. e\<lparr>onstart := Some g\<rparr>) \<circ> (\<lambda>e. e\<lparr>onstart := Some f\<rparr>)) h"
    unfolding setOnStart_def setOnAudioStart_def by (rule on_recognition_twice)
  then show "engine_of (snd (chain (setOnStart this f h) (\<lambda>r. setOnAudioStart r g))) this
        = Some (e\<lparr>onstart := Some g\<rparr>)"
    using e by (simp add: engine_of_on_recognition)
  show "fire (snd (setOnAudioStart this g h)) this (AudioStartEvent x) w
        = fire h this (AudioStartEvent x) w"
    using e by (simp add: setOnAudioStart_def fire_after) (simp add: fire_def)
qed

theorem setOnAudioStart_assigns_onstart_witness:
  "engine_of session 0 = Some fresh_engine \<and>
   engine_of (snd (chain (setOnStart 0 (note_event 1) session) (\<lambda>r. setOnAudioStart r (note_event 2)))) 0
     = Some (fresh_engine\<lparr>onstart := Some (note_event 2)\<rparr>) \<and>
   onaudiostart (fresh_engine\<lparr>onstart := Some (note_event 2)\<rparr>) = None \<and>
   fire (snd (setOnAudioStart 0 (note_event 2) session)) 0 (AudioStartEvent (Some ())) []
     = (Inr (), [])"
proof -
  have quiet: "fire session 0 (AudioStartEvent (Some ())) [] = (Inr (), [])"
    by (simp add: fire_def session_engine dispatch_def fresh_engine_def)
  have none: "onaudiostart fresh_engine = None"
    by (simp add: fresh_engine_def)
  show ?thesis
    using setOnAudioStart_assigns_onstart [where h = session and this = 0 and e = fresh_engine
      and f = "note_event 1" and g = "note_event 2" and x = "Some ()" and w = "[]"]
    by (auto simp: session_engine quiet none)
qed

text \<open>
  Claim C6. For each of the ten callback setters and all callbacks \<open>f\<close> and \<open>g\<close>,
  registering \<open>f\<close> and then \<open>g\<close> with the same setter is the same as registering \<open>g\<close>
  alone. On a constructed builder the slot then holds the one handler \<open>g\<close> (for
  \<open>setOnResult\<close>, the wrapper around \<open>g\<close>) and the engine is otherwise as before, so
  the next event of the slot runs \<open>g\<close> and nothing of \<open>f\<close>. The slot of
  \<open>setOnAudioStart\<close> is \<open>onstart\<close>, whose event is the start event.
\<close>

theorem callback_last_write_wins:
  assumes "engine_of h this = Some e"
  shows
   "register_twice setOnResult this fr gr h = setOnResult this gr h \<and>
    engine_of (snd (register_twice setOnResult this fr gr h)) this
      = Some (e\<lparr>onresult := Some (onresult_wrapper gr)\<rparr>) \<and>
    fire (snd (register_twice setOnResult this fr gr h)) this (ResultEvent ev) w
      = onresult_wrapper gr ev w \<and>
    register_twice setOnEnd this f g h = setOnEnd this g h \<and>
    engine_of (snd (register_twice setOnEnd this f g h)) this = Some (e\<lparr>onend := Some g\<rparr>) \<and>
    fire (snd (register_twice setOnEnd this f g h)) this (EndEvent x) w = g x w \<and>
    register_twice setOnError this fe ge h = setOnError this ge h \<and>
    engine_of (snd (register_twice setOnError this fe ge h)) this = Some (e\<lparr>onerror := Some ge\<rparr>) \<and>
    fire (snd (register_twice setOnError this fe ge h)) this (ErrorEvent y) w = ge y w \<and>
    register_twice setOnStart this f g h = setOnStart this g h \<and>
    engine_of (snd (register_twice setOnStart this f g h)) this = Some (e\<lparr>onstart := Some g\<rparr>) \<and>
    fire (snd (register_twice setOnStart this f g h)) this (StartEvent x) w = g x w \<and>
    register_twice setOnAudioStart this f g h = setOnAudioStart this g h \<and>
    engine_of (snd (register_twice setOnAudioStart this f g h)) this = Some (e\<lparr>onstart := Some g\<rparr>) \<and>
    fire (snd (register_twice setOnAudioStart this f g h)) this (StartEvent x) w = g x w \<and>
    register_twice setOnSoundStart this f g h = setOnSoundStart this g h \<and>
    engine_of (snd (register_twice setOnSoundStart this f g h)) this
      = Some (e\<lparr>onsoundstart := Some g\<rparr>) \<and>
    fire (snd (register_twice setOnSoundStart this f g h)) this (SoundStartEvent x) w = g x w \<and>
    register_twice setOnSoundEnd this f g h = setOnSoundEnd this g h \<and>
    engine_of (snd (register_twice setOnSoundEnd this f g h)) this
      = Some (e\<lparr>onsoundend := Some g\<rparr>) \<and>
    fire (snd (register_twice setOnSoundEnd this f g h)) this (SoundEndEvent x) w = g x w \<and>
    register_twice setOnSpeechStart this f g h = setOnSpeechStart this g h \<and>
    engine_of (snd (register_twice setOnSpeechStart this f g h)) this
      = Some (e\<lparr>onspeechstart := Some g\<rparr>) \<and>
    fire (snd (register_twice setOnSpeechStart this f g h)) this (SpeechStartEvent x) w = g x w \<and>
    register_twice setOnSpeechEnd this f g h = setOnSpeechEnd this g h \<and>
    engine_of (snd (register_twice setOnSpeechEnd this f g h)) this
      = Some (e\<lparr>onspeechend := Some g\<rparr>) \<and>
    fire (snd (register_twice setOnSpeechEnd this f g h)) this (SpeechEndEvent x) w = g x w \<and>
    register_twice setOnNoMatch this f g h = setOnNoMatch this g h \<and>
    engine_of (snd (register_twice setOnNoMatch this f g h)) this
      = Some (e\<lparr>onnomatch := Some g\<rparr>) \<and>
    fire (snd (register_twice setOnNoMatch this f g h)) this (NoMatchEvent x) w = g x w"
  unfolding register_twice_eq
  using assms
  by (simp add: callback_setter_defs engine_of_on_recognition fire_after dispatch_def)

theorem callback_last_write_wins_witness:
  "engine_of session 0 = Some fresh_engine \<and>
   fire (snd (register_twice setOnEnd 0 (note_event 1) (note_event 2) session)) 0
     (EndEvent (Some ())) [] = (Inr (), [Noted_event 2 (Some ())]) \<and>
   fire (snd (register_twice setOnResult 0 (note_result 1) (note_result 2) session)) 0
     (ResultEvent \<lparr>results = [\<lparr>alternatives = [\<lparr>transcript = ''hi''\<rparr>], isFinal = True\<rparr>]\<rparr>) []
     = (Inr (), [Noted_result 2 ''hi'' True])"
  using callback_last_write_wins [where h = session and this = 0 and e = fresh_engine
      and f = "note_event 1" and g = "note_event 2" and x = "Some ()" and w = "[]"
      and fe = "note_event 1" and ge = "note_event 2" and y = "Some ()"
      and fr = "note_result 1" and gr = "note_result 2"
      and ev = "\<lparr>results = [\<lparr>alternatives = [\<lparr>transcript = ''hi''\<rparr>], isFinal = True\<rparr>]\<rparr>"]
  by (auto simp: session_engine note_event_def note_result_def onresult_wrapper_def)

text \<open>
  Claim C7. On a constructed builder, each callback setter other than \<open>setOnResult\<close>
  puts the caller's callback itself into its engine slot, and an event of that slot
  is the call of the callback on the event as the engine passes it, be it an event
  object or no argument. The slot of \<open>setOnAudioStart\<close> is \<open>onstart\<close>.
\<close>

theorem callbacks_stored_unwrapped:
  assumes "engine_of h this = Some e"
  shows
   "engine_of (snd (setOnEnd this cb h)) this = Some (e\<lparr>onend := Some cb\<rparr>) \<and>
    fire (snd (setOnEnd this cb h)) this (EndEvent x) w = cb x w \<and>
    engine_of (snd (setOnError this cbe h)) this = Some (e\<lparr>onerror := Some cbe\<rparr>) \<and>
    fire (snd (setOnError this cbe h)) this (ErrorEvent y) w = cbe y w \<and>
    engine_of (snd (setOnStart this cb h)) this = Some (e\<lparr>onstart := Some cb\<rparr>) \<and>
    fire (snd (setOnStart this cb h)) this (StartEvent x) w = cb x w \<and>
    engine_of (snd (setOnAudioStart this cb h)) this = Some (e\<lparr>onstart := Some cb\<rparr>) \<and>
    fire (snd (setOnAudioStart this cb h)) this (StartEvent x) w = cb x w \<and>
    engine_of (snd (setOnSoundStart this cb h)) this = Some (e\<lparr>onsoundstart := Some cb\<rparr>) \<and>
    fire (snd (setOnSoundStart this cb h)) this (SoundStartEvent x) w = cb x w \<and>
    engine_of (snd (setOnSoundEnd this cb h)) this = Some (e\<lparr>onsoundend := Some cb\<rparr>) \<and>
    fire (snd (setOnSoundEnd this cb h)) this (SoundEndEvent x) w = cb x w \<and>
    engine_of (snd (setOnSpeechStart this cb h)) this = Some (e\<lparr>onspeechstart := Some cb\<rparr>) \<and>
    fire (snd (setOnSpeechStart this cb h)) this (SpeechStartEvent x) w = cb x w \<and>
    engine_of (snd (setOnSpeechEnd this cb h)) this = Some (e\<lparr>onspeechend := Some cb\<rparr>) \<and>
    fire (snd (setOnSpeechEnd this cb h)) this (SpeechEndEvent x) w = cb x w \<and>
    engine_of (snd (setOnNoMatch this cb h)) this = Some (e\<lparr>onnomatch := Some cb\<rparr>) \<and>
    fire (snd (setOnNoMatch this cb h)) this (NoMatchEvent x) w = cb x w"
  using assms
  by (simp add: callback_setter_defs engine_of_on_recognition fire_after dispatch_def)

theorem callbacks_stored_unwrapped_witness:
  "engine_of session 0 = Some fresh_engine \<and>
   fire (snd (setOnError 0 (note_event 5) session)) 0 (ErrorEvent (Some ())) []
     = (Inr (), [Noted_event 5 (Some ())]) \<and>
   fire (snd (setOnEnd 0 (note_event 6) session)) 0 (EndEvent None) []
     = (Inr (), [Noted_event 6 None])"
  using callbacks_stored_unwrapped [where h = session and this = 0 and e = fresh_engine
      and cb = "note_event 6" and cbe = "note_event 5" and x = None and y = "Some ()" and w = "[]"]
  by (simp add: session_engine note_event_def)

end
